theory Spec2Isabelle
  imports Main
begin

section \<open>The command layer of drive (cmd/drive/main.go)\<close>

text \<open>
  The file \<^verbatim>\<open>main.go\<close> registers five commands (init, pull, push, diff, pub) and, for
  each, resolves the context path, discovers the configuration context, computes the
  options and calls the synchronisation engine. Every error it looks at goes through
  \<^verbatim>\<open>exitWithError\<close>, which prints it and ends the process with status 1.

  The embedding keeps Go's shapes: a function returning \<^verbatim>\<open>(T, error)\<close> returns a pair
  whose second component is \<open>None\<close> for \<^verbatim>\<open>nil\<close>; a slice of strings is a list of
  strings; a Go string is a list of bytes, which is what \<open>string\<close> is.
\<close>

subsection \<open>Data\<close>

text \<open>A Go \<^verbatim>\<open>error\<close> value that is not nil; \<open>message\<close> is what \<^verbatim>\<open>Error()\<close> returns.\<close>

datatype error = Error (message: string)

text \<open>
  Modelled from the spec: \<^verbatim>\<open>config.Context\<close> is declared in the package
  \<^verbatim>\<open>config\<close>. This file reads one field of it, \<^verbatim>\<open>AbsPath\<close>, and passes the value on.
\<close>

record Context =
  AbsPath :: string

text \<open>
  Modelled from the spec: a mount point pairs a local filesystem path with a remote
  logical path. The type is declared in the package \<^verbatim>\<open>config\<close>; this file only
  forwards the values that \<^verbatim>\<open>config.MountPoints\<close> returns.
\<close>

type_synonym MountPoint = "string \<times> string"

text \<open>
  Modelled from the spec: \<^verbatim>\<open>drive.Options\<close> is declared in the package \<^verbatim>\<open>drive\<close>.
  The fields are the ones the handlers of this file set; a field that a handler leaves
  out has Go's zero value (\<open>False\<close>, the empty string, the empty list).
\<close>

record Options =
  Path :: string
  Hidden :: bool
  IsNoPrompt :: bool
  IsRecursive :: bool
  Mounts :: "MountPoint list"
  Sources :: "string list"


text \<open>The flag values of \<^verbatim>\<open>pullCmd\<close> and \<^verbatim>\<open>pushCmd\<close>, as the flag set has parsed them.\<close>

record pullCmd =
  isRecursive :: bool
  isNoPrompt :: bool

record pushCmd =
  hidden :: bool
  isNoPrompt :: bool
  isRecursive :: bool
  mountedPush :: bool

subsection \<open>The collaborators\<close>

text \<open>
  What the file calls and does not define: the Go library (\<^verbatim>\<open>os.Getwd\<close>,
  \<^verbatim>\<open>filepath.Rel\<close>, \<^verbatim>\<open>filepath.Abs\<close>), the package \<^verbatim>\<open>config\<close> and the engine
  \<^verbatim>\<open>drive\<close>. They are parameters of the model. Each one is called at most once in a
  run of a command, so a function of the arguments loses nothing.

  \<open>os_Getwd\<close> is the directory that \<^verbatim>\<open>os.Getwd()\<close> returns: \<^verbatim>\<open>getContextPath\<close> discards
  the error that comes with it (\<^verbatim>\<open>contextPath, _ = os.Getwd()\<close>), so that error never
  reaches \<^verbatim>\<open>exitWithError\<close> and is not part of the model.
\<close>

record env =
  os_Getwd :: string
  filepath_Rel :: "string \<Rightarrow> string \<Rightarrow> string \<times> error option"
  filepath_Abs :: "string \<Rightarrow> string \<times> error option"
  config_Initialize :: "string \<Rightarrow> Context \<times> error option"
  config_Discover :: "string \<Rightarrow> Context \<times> error option"
  config_MountPoints ::
    "string \<Rightarrow> string \<Rightarrow> string list \<Rightarrow> bool \<Rightarrow> MountPoint list \<times> string list"
  drive_Init :: "Context \<Rightarrow> error option"
  drive_Pull :: "Context \<Rightarrow> Options \<Rightarrow> error option"
  drive_Push :: "Context \<Rightarrow> Options \<Rightarrow> error option"
  drive_Diff :: "Context \<Rightarrow> Options \<Rightarrow> error option"
  drive_Publish :: "Context \<Rightarrow> Options \<Rightarrow> error option"

subsection \<open>Processes: what a run does and how it ends\<close>

text \<open>
  A run leaves a trace: the calls it made to the collaborators that return an error or
  act on the world, each with its arguments and the error it returned, and what it wrote
  to standard output.
\<close>

datatype event =
    EvInitialize string "error option"
  | EvDiscover string "error option"
  | EvRel string string "error option"
  | EvAbs string "error option"
  | EvMountPoints string string "string list" bool
  | EvInit Context "error option"
  | EvPull Context Options "error option"
  | EvPush Context Options "error option"
  | EvDiff Context Options "error option"
  | EvPublish Context Options "error option"
  | Stdout string

text \<open>A piece of code either returns a value or ends the process (\<^verbatim>\<open>os.Exit\<close>).\<close>

datatype 'a result = Exit nat | Return 'a

type_synonym 'a proc = "event list \<times> 'a result"

definition return :: "'a \<Rightarrow> 'a proc" where
  "return x = ([], Return x)"

definition emit :: "event \<Rightarrow> unit proc" where
  "emit ev = ([ev], Return ())"

text \<open>Sequencing: what follows an \<^verbatim>\<open>os.Exit\<close> does not run.\<close>

definition bind :: "'a proc \<Rightarrow> ('a \<Rightarrow> 'b proc) \<Rightarrow> 'b proc" where
  "bind m f =
     (case m of
        (t, Exit c) \<Rightarrow> (t, Exit c)
      | (t, Return x) \<Rightarrow> (case f x of (t', r) \<Rightarrow> (t @ t', r)))"

definition newline :: string where
  "newline = [CHR 0x0A]"

subsection \<open>The functions of main.go\<close>

text \<open>
  \<^verbatim>\<open>exitWithError\<close>: a nil error returns; any other error is printed with
  \<^verbatim>\<open>fmt.Println\<close> (standard output, a newline after it) and the process exits with 1.
\<close>

definition exitWithError :: "error option \<Rightarrow> unit proc" where
  "exitWithError err =
     (case err of
        Some e \<Rightarrow> ([Stdout (message e @ newline)], Exit 1)
      | None \<Rightarrow> return ())"

text \<open>
  \<^verbatim>\<open>getContextPath\<close>: the named result starts as the empty string, takes \<^verbatim>\<open>args[0]\<close>
  when there is one, and is replaced by the working directory when it is empty.
\<close>

definition getContextPath :: "env \<Rightarrow> string list \<Rightarrow> string" where
  "getContextPath e args =
     (let contextPath = (if length args > 0 then args ! 0 else '''')
      in if contextPath = '''' then os_Getwd e else contextPath)"


text \<open>
  \<^verbatim>\<open>discoverContext\<close>: \<^verbatim>\<open>filepath.Rel\<close> is called only when there is an argument;
  without one \<^verbatim>\<open>err\<close> is still the nil of the discovery when it is checked again.
\<close>

definition discoverContext :: "env \<Rightarrow> string list \<Rightarrow> (Context \<times> string) proc" where
  "discoverContext e args =
     (let p = getContextPath e args;
          (context, err) = config_Discover e p
      in bind (emit (EvDiscover p err)) (\<lambda>_.
         bind (exitWithError err) (\<lambda>_.
         if length args > 0 then
           (let (relPath, err) = filepath_Rel e (AbsPath context) (args ! 0)
            in bind (emit (EvRel (AbsPath context) (args ! 0) err)) (\<lambda>_.
               bind (exitWithError err) (\<lambda>_.
               return (context, relPath))))
         else
           bind (exitWithError err) (\<lambda>_.
           return (context, '''')))))"

text \<open>\<^verbatim>\<open>strings.Join\<close> of the Go library.\<close>

fun strings_Join :: "string list \<Rightarrow> string \<Rightarrow> string" where
  "strings_Join [] sep = ''''"
| "strings_Join [a] sep = a"
| "strings_Join (a # b # as) sep = a @ sep @ strings_Join (b # as) sep"

text \<open>
  The loop of \<^verbatim>\<open>pushCmd.Run\<close>,
  \<^verbatim>\<open>for i, path := range args { sources[i] = strings.Join([]string{"/", path}, "") }\<close>,
  from index \<open>i\<close> on; \<open>paths\<close> is what is left of \<^verbatim>\<open>args\<close>.
\<close>

fun prefix_loop :: "nat \<Rightarrow> string list \<Rightarrow> string list \<Rightarrow> string list" where
  "prefix_loop i [] sources = sources"
| "prefix_loop i (path # paths) sources =
     prefix_loop (Suc i) paths (sources[i := strings_Join [''/'', path] ''''])"

text \<open>
  The first block of \<^verbatim>\<open>pushCmd.Run\<close> (the \<^verbatim>\<open>if\<close> on the flag and \<^verbatim>\<open>argc\<close>): it gives
  \<^verbatim>\<open>contextArgs\<close>, \<^verbatim>\<open>rest\<close> and \<^verbatim>\<open>sources\<close>. A variable the chosen branch does not
  assign keeps its zero value, the nil slice. \<^verbatim>\<open>args[:argc-1]\<close> and \<^verbatim>\<open>args[argc-1:]\<close>
  are in range because the branch is guarded by \<^verbatim>\<open>argc >= 1\<close>.
\<close>

definition pushCmd_sources :: "bool \<Rightarrow> string list \<Rightarrow> string list \<times> string list \<times> string list" where
  "pushCmd_sources mounted args =
     (let argc = length args
      in if mounted \<and> argc \<ge> 1 then
           (let rest = take (argc - 1) args;
                contextArgs = drop (argc - 1) args
            in (contextArgs, rest, []))
         else
           (let contextArgs = args;
                sources = replicate argc '''';
                sources = prefix_loop 0 args sources
            in (contextArgs, [], sources)))"

definition pushCmd_Run :: "env \<Rightarrow> pushCmd \<Rightarrow> string list \<Rightarrow> unit proc" where
  "pushCmd_Run e cmd args =
     (let (contextArgs, rest, sources) = pushCmd_sources (mountedPush cmd) args
      in bind (discoverContext e contextArgs) (\<lambda>(context, path).
         let (contextAbsPath, err) = filepath_Abs e path
         in bind (emit (EvAbs path err)) (\<lambda>_.
            bind (exitWithError err) (\<lambda>_.
            let (mountPoints, auxSrcs) = config_MountPoints e path contextAbsPath rest (hidden cmd)
            in bind (emit (EvMountPoints path contextAbsPath rest (hidden cmd))) (\<lambda>_.
               let sources = sources @ auxSrcs;
                   opts = \<lparr>Path = path, Hidden = hidden cmd,
                           IsNoPrompt = pushCmd.isNoPrompt cmd,
                           IsRecursive = pushCmd.isRecursive cmd,
                           Mounts = mountPoints, Sources = sources\<rparr>;
                   err = drive_Push e context opts
               in bind (emit (EvPush context opts err)) (\<lambda>_.
                  exitWithError err))))))"










fun is_MountPoints :: "event \<Rightarrow> bool" where
  "is_MountPoints (EvMountPoints _ _ _ _) = True"
| "is_MountPoints _ = False"

fun is_Push :: "event \<Rightarrow> bool" where
  "is_Push (EvPush _ _ _) = True"
| "is_Push _ = False"

subsection \<open>Example environments\<close>

text \<open>
  An environment in which every collaborator succeeds: the root is \<^verbatim>\<open>/home/u/gd\<close>,
  \<^verbatim>\<open>filepath.Rel\<close> gives the target back, and mount resolution returns one source of
  its own and one for each name of \<^verbatim>\<open>rest\<close>.
\<close>

definition env_ok :: env where
  "env_ok =
     \<lparr>os_Getwd = ''/home/u/gd'',
      filepath_Rel = (\<lambda>base targ. (targ, None)),
      filepath_Abs = (\<lambda>p. (''/home/u/gd/'' @ p, None)),
      config_Initialize = (\<lambda>p. (\<lparr>AbsPath = p\<rparr>, None)),
      config_Discover = (\<lambda>p. (\<lparr>AbsPath = ''/home/u/gd''\<rparr>, None)),
      config_MountPoints =
        (\<lambda>p a rest h.
           (map (\<lambda>r. (r, ''/'' @ r)) rest, ''/.mounts'' # map (\<lambda>r. ''/'' @ r) rest)),
      drive_Init = (\<lambda>c. None),
      drive_Pull = (\<lambda>c opts. None),
      drive_Push = (\<lambda>c opts. None),
      drive_Diff = (\<lambda>c opts. None),
      drive_Publish = (\<lambda>c opts. None)\<rparr>"

text \<open>The same outside any initialised tree: discovery finds no context.\<close>

definition env_lost :: env where
  "env_lost =
     env_ok\<lparr>config_Discover :=
       (\<lambda>p. (\<lparr>AbsPath = ''''\<rparr>, Some (Error ''no context found'')))\<rparr>"


definition push_plain :: pushCmd where
  "push_plain =
     \<lparr>hidden = False, isNoPrompt = False, isRecursive = True, mountedPush = False\<rparr>"

definition push_mounted :: pushCmd where
  "push_mounted =
     \<lparr>hidden = False, isNoPrompt = False, isRecursive = True, mountedPush = True\<rparr>"

section \<open>Unfolding the handlers\<close>

lemma bind_emit: "bind (emit ev) f = (case f () of (t, r) \<Rightarrow> (ev # t, r))"
  by (simp add: bind_def emit_def)

lemma bind_return: "bind (return x) f = f x"
  by (simp add: bind_def return_def split: prod.splits)

lemma bind_exit_None: "bind (exitWithError None) f = f ()"
  by (simp add: exitWithError_def bind_return)

lemma bind_exit_Some:
  "bind (exitWithError (Some err)) f = ([Stdout (message err @ newline)], Exit 1)"
  by (simp add: exitWithError_def bind_def)

lemma bind_Exit: "bind (t, Exit c) f = (t, Exit c)"
  by (simp add: bind_def)

lemma bind_Return: "bind (t, Return x) f = (t @ fst (f x), snd (f x))"
  by (simp add: bind_def split: prod.splits)

lemmas proc_simps = bind_emit bind_return bind_exit_None bind_exit_Some bind_Exit bind_Return

lemma discoverContext_eq:
  "discoverContext e args =
     (case config_Discover e (getContextPath e args) of
        (context, Some err) \<Rightarrow>
          ([EvDiscover (getContextPath e args) (Some err), Stdout (message err @ newline)], Exit 1)
      | (context, None) \<Rightarrow>
          if args \<noteq> [] then
            (case filepath_Rel e (AbsPath context) (args ! 0) of
               (relPath, Some err) \<Rightarrow>
                 ([EvDiscover (getContextPath e args) None,
                   EvRel (AbsPath context) (args ! 0) (Some err),
                   Stdout (message err @ newline)], Exit 1)
             | (relPath, None) \<Rightarrow>
                 ([EvDiscover (getContextPath e args) None,
                   EvRel (AbsPath context) (args ! 0) None], Return (context, relPath)))
          else ([EvDiscover (getContextPath e args) None], Return (context, '''')))"
  by (simp add: discoverContext_def Let_def proc_simps return_def
      split: prod.splits option.splits)

lemma exitWithError_eq:
  "exitWithError err =
     (case err of None \<Rightarrow> ([], Return ()) | Some x \<Rightarrow> ([Stdout (message x @ newline)], Exit 1))"
  by (simp add: exitWithError_def return_def split: option.splits)

lemma pushCmd_Run_eq:
  assumes "pushCmd_sources (mountedPush cmd) args = (contextArgs, rest, sources)"
  shows "pushCmd_Run e cmd args =
     (case discoverContext e contextArgs of
        (t1, Exit c) \<Rightarrow> (t1, Exit c)
      | (t1, Return (context, path)) \<Rightarrow>
          (case filepath_Abs e path of
             (a, Some err) \<Rightarrow>
               (t1 @ [EvAbs path (Some err), Stdout (message err @ newline)], Exit 1)
           | (a, None) \<Rightarrow>
               (case config_MountPoints e path a rest (hidden cmd) of
                  (mountPoints, auxSrcs) \<Rightarrow>
                    (let opts = \<lparr>Path = path, Hidden = hidden cmd,
                           IsNoPrompt = pushCmd.isNoPrompt cmd,
                           IsRecursive = pushCmd.isRecursive cmd,
                           Mounts = mountPoints, Sources = sources @ auxSrcs\<rparr>;
                         err = drive_Push e context opts
                     in (t1 @ [EvAbs path None, EvMountPoints path a rest (hidden cmd),
                               EvPush context opts err] @ fst (exitWithError err),
                         snd (exitWithError err))))))"
  using assms
  by (simp add: pushCmd_Run_def Let_def proc_simps exitWithError_eq
      split: prod.splits option.splits result.splits)




section \<open>The source set of push\<close>

lemma strings_Join_slash: "strings_Join [''/'', path] '''' = ''/'' @ path"
  by simp

lemma prefix_loop_eq:
  "i + length paths = length sources \<Longrightarrow>
   prefix_loop i paths sources = take i sources @ map (\<lambda>a. ''/'' @ a) paths"
proof (induction paths arbitrary: i sources)
  case Nil
  then show ?case by simp
next
  case (Cons path paths)
  have "i < length sources" using Cons.prems by simp
  then have "take (Suc i) (sources[i := ''/'' @ path]) = take i sources @ [''/'' @ path]"
    by (simp add: take_Suc_conv_app_nth)
  then show ?case using Cons by simp
qed

lemma pushCmd_sources_plain:
  "\<not> (mounted \<and> args \<noteq> []) \<Longrightarrow>
   pushCmd_sources mounted args = (args, [], map (\<lambda>a. ''/'' @ a) args)"
  by (cases args) (auto simp: pushCmd_sources_def Let_def prefix_loop_eq)

lemma pushCmd_sources_mounted:
  "mounted \<Longrightarrow> args \<noteq> [] \<Longrightarrow>
   pushCmd_sources mounted args = ([last args], butlast args, [])"
proof -
  assume m: "mounted" and ne: "args \<noteq> []"
  have "take (length args - 1) args = butlast args"
    by (simp add: butlast_conv_take)
  moreover have "drop (length args - 1) args = [last args]"
  proof -
    have "drop (length (butlast args)) (butlast args @ [last args]) = [last args]"
      by simp
    then show ?thesis using ne by simp
  qed
  moreover have "length args \<ge> 1" using ne by (cases args) auto
  ultimately show ?thesis using m by (simp add: pushCmd_sources_def Let_def)
qed


section \<open>Claims about the source set\<close>

text \<open>
  C1. For every argument list, when the mounted-push flag is false, the first block of
  \<^verbatim>\<open>pushCmd.Run\<close> leaves in \<^verbatim>\<open>sources\<close> the arguments in their order, each with
  \<^verbatim>\<open>/\<close> in front, and \<^verbatim>\<open>rest\<close> is empty; all the arguments are context arguments.
  This is the state before mount resolution appends its sources.
\<close>

theorem plain_push_sources:
  "pushCmd_sources False args = (args, [], map (\<lambda>a. ''/'' @ a) args)"
  using pushCmd_sources_plain [of False args] by simp

theorem plain_push_sources_witness:
  "pushCmd_sources False [''myfile.txt''] = ([''myfile.txt''], [], [''/myfile.txt''])"
  using plain_push_sources [of "[''myfile.txt'']"] by simp

text \<open>
  C4. With no argument the mounted-push flag changes nothing: the first block gives no
  context argument, an empty \<^verbatim>\<open>rest\<close> and an empty \<^verbatim>\<open>sources\<close> with the flag as
  without it, the context path is the working directory, and the whole run of push is
  the same.
\<close>

theorem mounted_push_no_args:
  "pushCmd_sources True [] = pushCmd_sources False [] \<and>
   pushCmd_sources True [] = ([], [], []) \<and>
   getContextPath e [] = os_Getwd e \<and>
   pushCmd_Run e (cmd\<lparr>mountedPush := True\<rparr>) [] =
     pushCmd_Run e (cmd\<lparr>mountedPush := False\<rparr>) []"
  by (simp add: pushCmd_sources_def pushCmd_Run_def getContextPath_def)

section \<open>Claims about the context path\<close>

text \<open>
  C5, as stated: \<^verbatim>\<open>getContextPath\<close> returns \<^verbatim>\<open>args[0]\<close> whenever there is an
  argument. It does not when that argument is the empty string: the guard
  \<^verbatim>\<open>if contextPath == ""\<close> then puts the working directory in its place.
\<close>

theorem context_path_first_arg_counterexample:
  "[''''] \<noteq> [] \<and> getContextPath env_ok [''''] \<noteq> [''''] ! 0"
  by (simp add: getContextPath_def env_ok_def)

text \<open>
  C5, amended: \<^verbatim>\<open>getContextPath\<close> returns \<^verbatim>\<open>args[0]\<close> when there is an argument
  and it is not the empty string, and the working directory otherwise.
\<close>

theorem context_path_resolution:
  "getContextPath e args =
     (if args \<noteq> [] \<and> args ! 0 \<noteq> '''' then args ! 0 else os_Getwd e)"
  by (simp add: getContextPath_def)

theorem context_path_resolution_witness:
  "getContextPath env_ok [''docs'', ''x''] = ''docs'' \<and>
   getContextPath env_ok ['''', ''x''] = ''/home/u/gd'' \<and>
   getContextPath env_ok [] = ''/home/u/gd''"
  using context_path_resolution [of env_ok "[''docs'', ''x'']"]
    context_path_resolution [of env_ok "['''', ''x'']"]
    context_path_resolution [of env_ok "[]"]
  by (simp add: env_ok_def)

text \<open>
  C10. For every non-empty argument list whose first element is the empty string,
  \<^verbatim>\<open>getContextPath\<close> returns the working directory: the fallback looks at the path that
  was selected, not at the number of arguments.
\<close>

theorem empty_first_arg_falls_back:
  assumes "args \<noteq> []" and "args ! 0 = ''''"
  shows "getContextPath e args = os_Getwd e"
  using assms by (simp add: getContextPath_def)

theorem empty_first_arg_falls_back_witness:
  "['''', ''docs''] \<noteq> [] \<and> ['''', ''docs''] ! 0 = '''' \<and>
   getContextPath env_ok ['''', ''docs''] = ''/home/u/gd''"
  using empty_first_arg_falls_back [of "['''', ''docs'']" env_ok]
  by (simp add: env_ok_def)

text \<open>
  C6. When \<^verbatim>\<open>config.Discover\<close> has returned a context and no error,
  \<^verbatim>\<open>discoverContext\<close> returns with it the path \<^verbatim>\<open>filepath.Rel(context.AbsPath, args[0])\<close>
  when there is an argument and the empty string when there is none; when
  \<^verbatim>\<open>filepath.Rel\<close> returns an error, the error is printed and the process exits with
  status 1.
\<close>

theorem relative_path:
  assumes "config_Discover e (getContextPath e args) = (context, None)"
  shows "discoverContext e args =
     (if args \<noteq> [] then
        (case filepath_Rel e (AbsPath context) (args ! 0) of
           (relPath, None) \<Rightarrow>
             ([EvDiscover (getContextPath e args) None,
               EvRel (AbsPath context) (args ! 0) None], Return (context, relPath))
         | (relPath, Some err) \<Rightarrow>
             ([EvDiscover (getContextPath e args) None,
               EvRel (AbsPath context) (args ! 0) (Some err),
               Stdout (message err @ newline)], Exit 1))
      else ([EvDiscover (getContextPath e args) None], Return (context, '''')))"
  using assms by (simp add: discoverContext_eq split: prod.splits option.splits)

theorem relative_path_witness:
  "config_Discover env_ok (getContextPath env_ok [''docs'']) =
     (\<lparr>AbsPath = ''/home/u/gd''\<rparr>, None) \<and>
   discoverContext env_ok [''docs''] =
     ([EvDiscover ''docs'' None, EvRel ''/home/u/gd'' ''docs'' None],
      Return (\<lparr>AbsPath = ''/home/u/gd''\<rparr>, ''docs''))"
proof -
  have d: "config_Discover env_ok (getContextPath env_ok [''docs'']) =
             (\<lparr>AbsPath = ''/home/u/gd''\<rparr>, None)"
    by (simp add: env_ok_def)
  show ?thesis using d relative_path [OF d]
    by (simp add: env_ok_def getContextPath_def)
qed

section \<open>Runs of push\<close>


text \<open>The options of a call of the engine's push, read off the trace.\<close>

lemma pushCmd_Run_Push_event:
  assumes src: "pushCmd_sources (mountedPush cmd) args = (contextArgs, rest, sources)"
    and ev: "EvPush context opts err \<in> set (fst (pushCmd_Run e cmd args))"
  shows "Sources opts =
           sources @ snd (config_MountPoints e (Path opts) (fst (filepath_Abs e (Path opts)))
                            rest (hidden cmd))"
  using ev unfolding pushCmd_Run_eq [OF src] discoverContext_eq
  by (auto simp: Let_def exitWithError_eq split: prod.splits option.splits if_splits result.splits)


lemma run_lost:
  "pushCmd_Run env_lost push_plain [''a''] =
     ([EvDiscover ''a'' (Some (Error ''no context found'')),
       Stdout (''no context found'' @ newline)], Exit 1)"
  by (simp add: pushCmd_Run_def pushCmd_sources_def discoverContext_def getContextPath_def
      env_lost_def env_ok_def push_plain_def proc_simps exitWithError_def return_def Let_def)



lemma pushCmd_sources_last:
  assumes "args \<noteq> []"
  shows "pushCmd_sources True args =
           ([args ! (length args - 1)], take (length args - 1) args, [])"
  using assms pushCmd_sources_mounted [of True args]
  by (simp add: last_conv_nth butlast_conv_take)

text \<open>
  C2, as stated: with the mounted-push flag and at least one argument, the last argument
  is the context path. It is not when the last argument is the empty string: the first
  block hands it to \<^verbatim>\<open>discoverContext\<close> as the only context argument, and the guard
  \<^verbatim>\<open>if contextPath == ""\<close> of \<^verbatim>\<open>getContextPath\<close> puts the working directory in its
  place, so that \<^verbatim>\<open>config.Discover\<close> is called with the working directory.
\<close>

theorem mounted_push_last_arg_counterexample:
  "[''m'', ''''] \<noteq> [] \<and>
   getContextPath env_ok (fst (pushCmd_sources True [''m'', ''''])) \<noteq>
     [''m'', ''''] ! (length [''m'', ''''] - 1) \<and>
   take 1 (fst (pushCmd_Run env_ok push_mounted [''m'', ''''])) =
     [EvDiscover ''/home/u/gd'' None]"
  by (simp add: pushCmd_Run_def pushCmd_sources_def discoverContext_def getContextPath_def
      env_ok_def push_mounted_def proc_simps exitWithError_def return_def Let_def)

text \<open>
  C2, amended: for every non-empty argument list, when the mounted-push flag is true,
  the last argument \<open>l\<close> is the only context argument, \<^verbatim>\<open>rest\<close> is the arguments before
  it in their order and \<^verbatim>\<open>sources\<close> starts empty. The run of push then calls
  \<^verbatim>\<open>config.Discover\<close> first, with \<open>l\<close> when \<open>l\<close> is not the empty string and with the
  working directory when it is; when the discovery succeeds, the next call is
  \<^verbatim>\<open>filepath.Rel\<close> with \<open>l\<close> as its target; every call of \<^verbatim>\<open>config.MountPoints\<close>
  gets that \<^verbatim>\<open>rest\<close>, and the \<^verbatim>\<open>Sources\<close> that reach the engine are exactly the
  sources that call returns.
\<close>

theorem mounted_push_context:
  assumes ne: "args \<noteq> []" and m: "mountedPush cmd"
    and l: "l = args ! (length args - 1)"
    and cp: "cp = (if l = '''' then os_Getwd e else l)"
    and d: "config_Discover e cp = (context, derr)"
  shows "pushCmd_sources (mountedPush cmd) args = ([l], take (length args - 1) args, []) \<and>
         getContextPath e (fst (pushCmd_sources (mountedPush cmd) args)) = cp \<and>
         take 1 (fst (pushCmd_Run e cmd args)) = [EvDiscover cp derr] \<and>
         (derr = None \<longrightarrow>
            take 2 (fst (pushCmd_Run e cmd args)) =
              [EvDiscover cp None,
               EvRel (AbsPath context) l (snd (filepath_Rel e (AbsPath context) l))]) \<and>
         (\<forall>p a r h. EvMountPoints p a r h \<in> set (fst (pushCmd_Run e cmd args)) \<longrightarrow>
            r = take (length args - 1) args) \<and>
         (\<forall>c opts err. EvPush c opts err \<in> set (fst (pushCmd_Run e cmd args)) \<longrightarrow>
            Sources opts =
              snd (config_MountPoints e (Path opts) (fst (filepath_Abs e (Path opts)))
                     (take (length args - 1) args) (hidden cmd)))"
proof -
  have src: "pushCmd_sources (mountedPush cmd) args = ([l], take (length args - 1) args, [])"
    using pushCmd_sources_last [OF ne] m l by simp
  have g: "getContextPath e [l] = cp"
    using cp by (simp add: getContextPath_def)
  have run: "take 1 (fst (pushCmd_Run e cmd args)) = [EvDiscover cp derr] \<and>
         (derr = None \<longrightarrow>
            take 2 (fst (pushCmd_Run e cmd args)) =
              [EvDiscover cp None,
               EvRel (AbsPath context) l (snd (filepath_Rel e (AbsPath context) l))]) \<and>
         (\<forall>p a r h. EvMountPoints p a r h \<in> set (fst (pushCmd_Run e cmd args)) \<longrightarrow>
            r = take (length args - 1) args)"
    using d unfolding pushCmd_Run_eq [OF src] discoverContext_eq g
    by (auto simp: Let_def exitWithError_eq split: prod.splits option.splits)
  have push: "\<forall>c opts err. EvPush c opts err \<in> set (fst (pushCmd_Run e cmd args)) \<longrightarrow>
            Sources opts =
              snd (config_MountPoints e (Path opts) (fst (filepath_Abs e (Path opts)))
                     (take (length args - 1) args) (hidden cmd))"
    using pushCmd_Run_Push_event [OF src] by auto
  show ?thesis using src g run push by simp
qed

theorem mounted_push_context_witness:
  "pushCmd_sources True [''mount1'', ''mount2'', ''/sync/root''] =
     ([''/sync/root''], [''mount1'', ''mount2''], []) \<and>
   getContextPath env_ok (fst (pushCmd_sources True [''mount1'', ''mount2'', ''/sync/root''])) =
     ''/sync/root'' \<and>
   take 2 (fst (pushCmd_Run env_ok push_mounted [''mount1'', ''mount2'', ''/sync/root''])) =
     [EvDiscover ''/sync/root'' None, EvRel ''/home/u/gd'' ''/sync/root'' None]"
proof -
  have ne: "[''mount1'', ''mount2'', ''/sync/root''] \<noteq> []" by simp
  have m: "mountedPush push_mounted" by (simp add: push_mounted_def)
  have l: "''/sync/root'' =
             [''mount1'', ''mount2'', ''/sync/root''] !
               (length [''mount1'', ''mount2'', ''/sync/root''] - 1)"
    by simp
  have cp: "''/sync/root'' = (if ''/sync/root'' = '''' then os_Getwd env_ok else ''/sync/root'')"
    by simp
  have d: "config_Discover env_ok ''/sync/root'' = (\<lparr>AbsPath = ''/home/u/gd''\<rparr>, None)"
    by (simp add: env_ok_def)
  have r: "snd (filepath_Rel env_ok ''/home/u/gd'' ''/sync/root'') = None"
    by (simp add: env_ok_def)
  show ?thesis
    using mounted_push_context [OF ne m l cp d] m r by (simp add: getContextPath_def)
qed



text \<open>
  C7, as stated: every push calls mount resolution exactly once. A push whose context
  discovery fails exits before the call: the trace has no call of
  \<^verbatim>\<open>config.MountPoints\<close> at all.
\<close>

theorem mount_resolution_once_counterexample:
  "length (filter is_MountPoints (fst (pushCmd_Run env_lost push_plain [''a'']))) \<noteq> 1"
  by (simp add: run_lost)

text \<open>
  C7, amended: in every push in which \<^verbatim>\<open>discoverContext\<close> returns and
  \<^verbatim>\<open>filepath.Abs\<close> gives no error, \<^verbatim>\<open>config.MountPoints\<close> is called exactly once, with
  the \<^verbatim>\<open>rest\<close> of the first block (empty when the mounted mode does not apply), and
  the engine's push is called once with \<^verbatim>\<open>Sources\<close> equal to the sources computed so
  far followed by the auxiliary sources that call returned, both in their order.
\<close>

theorem mount_resolution:
  assumes "pushCmd_sources (mountedPush cmd) args = (contextArgs, rest, sources)"
    and "discoverContext e contextArgs = (t1, Return (context, path))"
    and "filepath_Abs e path = (contextAbsPath, None)"
    and "config_MountPoints e path contextAbsPath rest (hidden cmd) = (mountPoints, auxSrcs)"
  shows "filter is_MountPoints (fst (pushCmd_Run e cmd args)) =
           [EvMountPoints path contextAbsPath rest (hidden cmd)] \<and>
         (\<not> (mountedPush cmd \<and> args \<noteq> []) \<longrightarrow> rest = []) \<and>
         filter is_Push (fst (pushCmd_Run e cmd args)) =
           [EvPush context
              \<lparr>Path = path, Hidden = hidden cmd, IsNoPrompt = pushCmd.isNoPrompt cmd,
               IsRecursive = pushCmd.isRecursive cmd, Mounts = mountPoints,
               Sources = sources @ auxSrcs\<rparr>
              (drive_Push e context
                 \<lparr>Path = path, Hidden = hidden cmd, IsNoPrompt = pushCmd.isNoPrompt cmd,
                  IsRecursive = pushCmd.isRecursive cmd, Mounts = mountPoints,
                  Sources = sources @ auxSrcs\<rparr>)]"
proof -
  have t1: "filter is_MountPoints t1 = [] \<and> filter is_Push t1 = []"
    using assms(2) unfolding discoverContext_eq
    by (auto split: prod.splits option.splits if_splits)
  have rest: "\<not> (mountedPush cmd \<and> args \<noteq> []) \<longrightarrow> rest = []"
    using assms(1) pushCmd_sources_plain [of "mountedPush cmd" args] by auto
  show ?thesis
    using t1 rest assms(2-4) unfolding pushCmd_Run_eq [OF assms(1)]
    by (auto simp: Let_def exitWithError_eq split: option.splits)
qed

theorem mount_resolution_witness:
  "filter is_MountPoints (fst (pushCmd_Run env_ok push_plain [''a'', ''b''])) =
     [EvMountPoints ''a'' ''/home/u/gd/a'' [] False] \<and>
   filter is_Push (fst (pushCmd_Run env_ok push_plain [''a'', ''b''])) =
     [EvPush \<lparr>AbsPath = ''/home/u/gd''\<rparr>
        \<lparr>Path = ''a'', Hidden = False, IsNoPrompt = False, IsRecursive = True,
         Mounts = [], Sources = [''/a'', ''/b''] @ [''/.mounts'']\<rparr> None]"
proof -
  have a1: "pushCmd_sources (mountedPush push_plain) [''a'', ''b''] =
              ([''a'', ''b''], [], [''/a'', ''/b''])"
    by (simp add: pushCmd_sources_def push_plain_def)
  have a2: "discoverContext env_ok [''a'', ''b''] =
              ([EvDiscover ''a'' None, EvRel ''/home/u/gd'' ''a'' None],
               Return (\<lparr>AbsPath = ''/home/u/gd''\<rparr>, ''a''))"
    by (simp add: discoverContext_eq getContextPath_def env_ok_def)
  have a3: "filepath_Abs env_ok ''a'' = (''/home/u/gd/a'', None)"
    by (simp add: env_ok_def)
  have a4: "config_MountPoints env_ok ''a'' ''/home/u/gd/a'' [] (hidden push_plain) =
            ([], [''/.mounts''])"
    by (simp add: env_ok_def)
  show ?thesis
    using mount_resolution [OF a1 a2 a3 a4] by (simp add: push_plain_def env_ok_def)
qed

section \<open>Claims about errors\<close>

text \<open>
  C9. In every push in which \<^verbatim>\<open>config.Discover\<close>, \<^verbatim>\<open>filepath.Rel\<close> or
  \<^verbatim>\<open>filepath.Abs\<close> returns an error (the steps before the engine that can fail), the
  engine's push is not called and the process exits with status 1. The second and the
  third hypothesis name what \<^verbatim>\<open>discoverContext\<close> computes: the context, and the path,
  which is relative to the context when there is a context argument.
\<close>

theorem push_never_reached:
  assumes "pushCmd_sources (mountedPush cmd) args = (contextArgs, rest, sources)"
    and "config_Discover e (getContextPath e contextArgs) = (context, err1)"
    and "(if contextArgs \<noteq> [] then filepath_Rel e (AbsPath context) (contextArgs ! 0)
          else ('''', None)) = (path, err2)"
    and "filepath_Abs e path = (contextAbsPath, err3)"
    and "err1 \<noteq> None \<or> err2 \<noteq> None \<or> err3 \<noteq> None"
  shows "(\<forall>ev\<in>set (fst (pushCmd_Run e cmd args)). \<not> is_Push ev) \<and>
         snd (pushCmd_Run e cmd args) = Exit 1"
  using assms(2-5) unfolding pushCmd_Run_eq [OF assms(1)] discoverContext_eq
  by (auto simp: Let_def exitWithError_eq split: prod.splits option.splits if_splits)

theorem push_never_reached_witness:
  "filter is_Push (fst (pushCmd_Run env_lost push_plain [''a''])) = [] \<and>
   snd (pushCmd_Run env_lost push_plain [''a'']) = Exit 1"
proof -
  have a1: "pushCmd_sources (mountedPush push_plain) [''a''] = ([''a''], [], [''/a''])"
    by (simp add: pushCmd_sources_def push_plain_def)
  have a2: "config_Discover env_lost (getContextPath env_lost [''a'']) =
              (\<lparr>AbsPath = ''''\<rparr>, Some (Error ''no context found''))"
    by (simp add: env_lost_def env_ok_def)
  have a3: "(if [''a''] \<noteq> []
             then filepath_Rel env_lost (AbsPath \<lparr>AbsPath = ''''\<rparr>) ([''a''] ! 0)
             else ('''', None)) = (''a'', None)"
    by (simp add: env_lost_def env_ok_def)
  have a4: "filepath_Abs env_lost ''a'' = (''/home/u/gd/a'', None)"
    by (simp add: env_lost_def env_ok_def)
  have a5: "Some (Error ''no context found'') \<noteq> None \<or> (None :: error option) \<noteq> None \<or>
            (None :: error option) \<noteq> None"
    by simp
  show ?thesis
    using push_never_reached [OF a1 a2 a3 a4 a5] by (simp add: filter_empty_conv)
qed



end
